theory Spec2Isabelle
  imports Main "HOL-Library.Word"
begin

unbundle bit_operations_syntax

section \<open>The kernel handover stub of \<open>src/boot/efi/linux.c\<close>\<close>

text \<open>
  The file \<open>linux.c\<close> holds two entry points, \<open>linux_exec\<close> (x86, with the two
  builds \<open>__i386__\<close> and \<open>__x86_64__\<close>) and \<open>linux_aarch64_exec\<close> (arm64), and their
  static helpers \<open>linux_efi_handover\<close>, \<open>open_fdt\<close> and \<open>update_fdt\<close>. Each is embedded
  below as a function on an explicit machine state. What lies outside \<open>linux.c\<close> (the
  firmware's page allocator, its configuration table, the kernel that is entered, libfdt)
  is an explicit part of the environment or of the state.
\<close>

subsection \<open>Machine integers and status codes\<close>

type_synonym UINT8 = "8 word"
type_synonym UINT16 = "16 word"
type_synonym UINT32 = "32 word"
type_synonym UINT64 = "64 word"

text \<open>
  Addresses and \<open>UINTN\<close> values are carried as 64-bit words. \<open>UINTN\<close> is 32 bits wide on
  the \<open>__i386__\<close> build and 64 bits wide on \<open>__x86_64__\<close>; \<open>to_UINTN\<close> is the
  conversion to that width (the cast \<open>(UINTN)\<close>, and the wrap-around of \<open>UINTN\<close>
  arithmetic).
\<close>

type_synonym addr = "64 word"

datatype arch = I386 | X86_64

definition to_UINTN :: "arch \<Rightarrow> 64 word \<Rightarrow> 64 word" where
  "to_UINTN a x = (case a of I386 \<Rightarrow> take_bit 32 x | X86_64 \<Rightarrow> x)"

text \<open>
  \<open>EFI_STATUS\<close>: gnu-efi builds an error code as \<open>EFIERR(n)\<close> (the top bit of a
  \<open>UINTN\<close> set), a warning as \<open>EFIWARN(n)\<close>, and \<open>EFI_ERROR(s)\<close> tests the top bit.
\<close>

datatype efi_status = EFI_SUCCESS | EFIWARN nat | EFIERR nat

definition EFI_LOAD_ERROR :: efi_status where
  "EFI_LOAD_ERROR = EFIERR 1"


definition EFI_NOT_FOUND :: efi_status where
  "EFI_NOT_FOUND = EFIERR 14"

fun EFI_ERROR :: "efi_status \<Rightarrow> bool" where
  "EFI_ERROR (EFIERR n) = True"
| "EFI_ERROR s = False"

text \<open>\<open>EFI_SIZE_TO_PAGES(a) = (a >> 12) + ((a & 0xFFF) ? 1 : 0)\<close>, on a \<open>UINTN\<close>.\<close>

definition EFI_SIZE_TO_PAGES :: "64 word \<Rightarrow> 64 word" where
  "EFI_SIZE_TO_PAGES a = drop_bit 12 a + (if a AND 0xFFF \<noteq> 0 then 1 else 0)"

subsection \<open>The x86 boot protocol structures\<close>

text \<open>
  Modelled from the spec: \<open>struct setup_header\<close>, \<open>struct boot_params\<close> and
  \<open>SETUP_MAGIC\<close> are declared in \<open>linux.h\<close>, which is not among the sources. The records
  have one field for each member that \<open>linux.c\<close> names, with the width of the casts and
  comparisons \<open>linux.c\<close> applies to it; all the other members of a structure are
  kept together, as their bytes, in one further field (\<open>hdr_other\<close>, \<open>params_other\<close>).
  \<open>SETUP_MAGIC\<close> is the magic value of the setup header, the four characters
  \<open>HdrS\<close> read as a little-endian 32-bit number.
\<close>

record setup_header =
  setup_sects :: UINT8
  boot_flag :: UINT16
  header :: UINT32
  version :: UINT16
  type_of_loader :: UINT8
  code32_start :: UINT32
  ramdisk_image :: UINT32
  ramdisk_size :: UINT32
  cmd_line_ptr :: UINT32
  relocatable_kernel :: UINT8
  handover_offset :: UINT32
  hdr_other :: "UINT8 list"

record boot_params =
  hdr :: setup_header
  params_other :: "UINT8 list"

definition SETUP_MAGIC :: UINT32 where
  "SETUP_MAGIC = 0x53726448"

subsection \<open>The firmware and the machine state\<close>

text \<open>
  A call of \<open>BS->AllocatePages(Type, MemoryType, Pages, &Memory)\<close>: the request holds the
  three arguments and the value of \<open>*Memory\<close> on entry.
\<close>

datatype EFI_ALLOCATE_TYPE = AllocateAnyPages | AllocateMaxAddress | AllocateAddress

datatype EFI_MEMORY_TYPE = EfiLoaderCode | EfiLoaderData | EfiBootServicesData

record alloc_request =
  req_type :: EFI_ALLOCATE_TYPE
  req_memory :: EFI_MEMORY_TYPE
  req_pages :: "64 word"
  req_addr :: "64 word"

text \<open>
  The third argument of the handover call is a \<open>struct boot_params *\<close> in the type
  \<open>handover_f\<close>; it is carried as an address.
\<close>

record handover_call =
  entry :: addr
  arg_image :: addr
  arg_table :: addr
  arg_params :: addr

text \<open>
  The environment of \<open>linux.c\<close>:
  \<^item> \<open>AllocatePages\<close> is the firmware's allocator: from the requests served so far and
    the present request it gives the status and the value of \<open>*Memory\<close> on return;
  \<^item> \<open>ST\<close> is the global system table pointer;
  \<^item> \<open>kernel_returns\<close> tells whether a handover call comes back (a kernel that takes
    control never returns);
  \<^item> \<open>dtb_table\<close> is what \<open>LibGetSystemConfigurationTable(&EfiDtbTableGuid, &fdt)\<close>
    gives: the status and the value of \<open>fdt\<close> on return.
\<close>

record efi_env =
  AllocatePages :: "alloc_request list \<Rightarrow> alloc_request \<Rightarrow> efi_status \<times> addr"
  ST :: addr
  kernel_returns :: "handover_call \<Rightarrow> bool"
  dtb_table :: "efi_status \<times> addr"

text \<open>
  The memory is a typed heap, one view for each type that \<open>linux.c\<close> dereferences:
  \<open>heap_boot_params m p\<close> is the \<open>struct boot_params\<close> read through a pointer \<open>p\<close>, and
  \<open>heap_CHAR8 m p\<close> the byte at \<open>p\<close>. Two objects of one view at different addresses are
  taken not to overlap. The state also records, in order, the calls made to the allocator
  and the handover calls, and whether interrupts are enabled.
\<close>

record machine =
  heap_boot_params :: "addr \<Rightarrow> boot_params"
  heap_CHAR8 :: "addr \<Rightarrow> UINT8"
  alloc_calls :: "alloc_request list"
  interrupts_enabled :: bool
  handover_calls :: "handover_call list"

text \<open>
  The result of an entry point: it returns a status, or control has passed to the kernel
  and the function never returns.
\<close>

datatype outcome = Returned efi_status | Transferred

definition call_AllocatePages ::
  "efi_env \<Rightarrow> alloc_request \<Rightarrow> machine \<Rightarrow> efi_status \<times> addr \<times> machine" where
  "call_AllocatePages env req m =
     (let (err, a) = AllocatePages env (alloc_calls m) req
      in (err, a, m\<lparr>alloc_calls := alloc_calls m @ [req]\<rparr>))"

text \<open>
  \<open>ZeroMem(boot_params, 0x4000)\<close> on the \<open>struct boot_params\<close> at \<open>p\<close>: every member
  becomes zero.
\<close>

definition zero_setup_header :: "setup_header \<Rightarrow> setup_header" where
  "zero_setup_header h =
     \<lparr>setup_sects = 0, boot_flag = 0, header = 0, version = 0, type_of_loader = 0,
      code32_start = 0, ramdisk_image = 0, ramdisk_size = 0, cmd_line_ptr = 0,
      relocatable_kernel = 0, handover_offset = 0,
      hdr_other = replicate (length (hdr_other h)) 0\<rparr>"

definition ZeroMem_boot_params :: "addr \<Rightarrow> machine \<Rightarrow> machine" where
  "ZeroMem_boot_params p m =
     m\<lparr>heap_boot_params := (heap_boot_params m)
        (p := \<lparr>hdr = zero_setup_header (hdr (heap_boot_params m p)),
               params_other = replicate (length (params_other (heap_boot_params m p))) 0\<rparr>)\<rparr>"

text \<open>
  An assignment to, or a \<open>CopyMem\<close> into, the member \<open>hdr\<close> of the
  \<open>struct boot_params\<close> at \<open>p\<close>.
\<close>

definition update_hdr :: "addr \<Rightarrow> (setup_header \<Rightarrow> setup_header) \<Rightarrow> machine \<Rightarrow> machine" where
  "update_hdr p f m =
     m\<lparr>heap_boot_params := (heap_boot_params m)
        (p := (heap_boot_params m p)\<lparr>hdr := f (hdr (heap_boot_params m p))\<rparr>)\<rparr>"

text \<open>
  \<open>CopyMem(dst, src, n)\<close> on bytes: the \<open>n\<close> bytes from \<open>dst\<close> on become the \<open>n\<close> bytes
  that stood from \<open>src\<close> on.
\<close>

definition CopyMem_CHAR8 :: "addr \<Rightarrow> addr \<Rightarrow> 64 word \<Rightarrow> machine \<Rightarrow> machine" where
  "CopyMem_CHAR8 dst src n m =
     m\<lparr>heap_CHAR8 := (\<lambda>p. if p - dst < n then heap_CHAR8 m (src + (p - dst))
                            else heap_CHAR8 m p)\<rparr>"

subsection \<open>\<open>linux_efi_handover\<close> and \<open>linux_exec\<close>\<close>

text \<open>
  \<open>linux_efi_handover\<close>: \<open>start\<close> is the \<open>code32_start\<close> of the parameter block as a
  \<open>UINTN\<close>; the \<open>__x86_64__\<close> build disables interrupts (\<open>cli\<close>) and adds 512; the
  target is \<open>start + handover_offset\<close> in \<open>UINTN\<close> arithmetic; the call passes the image
  handle, \<open>ST\<close> and the parameter block. The function gives back the state after the
  call and whether the call returned.
\<close>

definition handover_start :: "arch \<Rightarrow> setup_header \<Rightarrow> 64 word" where
  "handover_start a h =
     (case a of
        I386 \<Rightarrow> ucast (code32_start h)
      | X86_64 \<Rightarrow> ucast (code32_start h) + 512)"

definition linux_efi_handover ::
  "arch \<Rightarrow> efi_env \<Rightarrow> addr \<Rightarrow> addr \<Rightarrow> machine \<Rightarrow> bool \<times> machine" where
  "linux_efi_handover a env image_handle params m =
     (let h = hdr (heap_boot_params m params);
          m1 = (case a of I386 \<Rightarrow> m | X86_64 \<Rightarrow> m\<lparr>interrupts_enabled := False\<rparr>);
          handover = to_UINTN a (handover_start a h + ucast (handover_offset h));
          c = \<lparr>entry = handover, arg_image = image_handle, arg_table = ST env, arg_params = params\<rparr>
      in (kernel_returns env c, m1\<lparr>handover_calls := handover_calls m1 @ [c]\<rparr>))"

text \<open>
  The two requests \<open>linux_exec\<close> makes: for the parameter block,
  \<open>EFI_SIZE_TO_PAGES(0x4000)\<close> pages of loader data with \<open>*Memory = 0xFFFFFFFF\<close>, and
  for the command line, \<open>EFI_SIZE_TO_PAGES(cmdline_len + 1)\<close> pages of loader data with
  \<open>*Memory = 0xA0000\<close>, both of type \<open>AllocateMaxAddress\<close>.
\<close>

definition boot_params_request :: alloc_request where
  "boot_params_request =
     \<lparr>req_type = AllocateMaxAddress, req_memory = EfiLoaderData,
      req_pages = EFI_SIZE_TO_PAGES 0x4000, req_addr = 0xFFFFFFFF\<rparr>"

definition cmdline_request :: "arch \<Rightarrow> 64 word \<Rightarrow> alloc_request" where
  "cmdline_request a cmdline_len =
     \<lparr>req_type = AllocateMaxAddress, req_memory = EfiLoaderData,
      req_pages = EFI_SIZE_TO_PAGES (to_UINTN a (cmdline_len + 1)), req_addr = 0xA0000\<rparr>"

text \<open>
  \<open>linux_exec\<close>, statement by statement. \<open>image_handle\<close> is the argument \<open>image\<close>;
  \<open>cmdline\<close> is the pointer (0 is \<open>NULL\<close>). The block \<open>if (cmdline) { ... }\<close> either
  leaves the function with the allocator's status (\<open>Inl\<close>) or falls through to the
  statements after it (\<open>Inr\<close>).
\<close>

definition linux_exec ::
  "arch \<Rightarrow> efi_env \<Rightarrow> addr \<Rightarrow> addr \<Rightarrow> 64 word \<Rightarrow> addr \<Rightarrow> addr \<Rightarrow> 64 word \<Rightarrow> machine
     \<Rightarrow> outcome \<times> machine" where
  "linux_exec a env image_handle cmdline cmdline_len linux_addr initrd_addr initrd_size m =
     (let image_params = linux_addr in
      if boot_flag (hdr (heap_boot_params m image_params)) \<noteq> 0xAA55 \<or>
         header (hdr (heap_boot_params m image_params)) \<noteq> SETUP_MAGIC \<or>
         version (hdr (heap_boot_params m image_params)) < 0x20b \<or>
         relocatable_kernel (hdr (heap_boot_params m image_params)) = 0
      then (Returned EFI_LOAD_ERROR, m)
      else
        let (err, boot_params, m1) = call_AllocatePages env boot_params_request m
        in
        if EFI_ERROR err then (Returned err, m1)
        else
          let m2 = ZeroMem_boot_params boot_params m1;
              m3 = update_hdr boot_params (\<lambda>_. hdr (heap_boot_params m2 image_params)) m2;
              m4 = update_hdr boot_params (\<lambda>h. h\<lparr>type_of_loader := 0xff\<rparr>) m3;
              setup_sectors =
                (if setup_sects (hdr (heap_boot_params m4 image_params)) > 0
                 then setup_sects (hdr (heap_boot_params m4 image_params)) else 4);
              m5 = update_hdr boot_params
                     (\<lambda>h. h\<lparr>code32_start :=
                              ucast linux_addr + (ucast setup_sectors + 1) * 512\<rparr>) m4;
              staged =
                (if cmdline \<noteq> 0 then
                   let (err, addr, m6) =
                         call_AllocatePages env (cmdline_request a cmdline_len) m5
                   in
                   if EFI_ERROR err then Inl (err, m6)
                   else
                     let m7 = CopyMem_CHAR8 (to_UINTN a addr) cmdline cmdline_len m6;
                         m8 = m7\<lparr>heap_CHAR8 :=
                                   (heap_CHAR8 m7)(to_UINTN a addr + cmdline_len := 0)\<rparr>
                     in Inr (update_hdr boot_params (\<lambda>h. h\<lparr>cmd_line_ptr := ucast addr\<rparr>) m8)
                 else Inr m5)
          in
          case staged of
            Inl (err, m6) \<Rightarrow> (Returned err, m6)
          | Inr m9 \<Rightarrow>
              let m10 = update_hdr boot_params
                          (\<lambda>h. h\<lparr>ramdisk_image := ucast initrd_addr\<rparr>) m9;
                  m11 = update_hdr boot_params
                          (\<lambda>h. h\<lparr>ramdisk_size := ucast initrd_size\<rparr>) m10;
                  (back, m12) = linux_efi_handover a env image_handle boot_params m11
              in (if back then Returned EFI_LOAD_ERROR else Transferred, m12))"

subsection \<open>The device tree\<close>

text \<open>
  Modelled from the spec: libfdt (\<open>fdt_check_header\<close>, \<open>fdt_totalsize\<close>,
  \<open>fdt_subnode_offset\<close>, \<open>fdt_add_subnode\<close>, \<open>fdt_setprop\<close>, \<open>cpu_to_fdt64\<close>) is not
  among the sources. A blob is kept as its header magic and total size, the root node and
  the root's direct subnodes with their properties (no deeper node is addressed by
  \<open>linux.c\<close>), and the number of bytes still free in the blob, since the edit is made in
  place. A node offset is 0 for the root and \<open>i + 1\<close> for the \<open>i\<close>-th subnode of the root;
  a negative result is minus an error code, as in libfdt.
\<close>

type_synonym fdt_property = "string \<times> UINT8 list"

record fdt_node =
  node_name :: string
  node_props :: "fdt_property list"

record fdt =
  fdt_magic :: UINT32
  fdt_totalsize :: UINT32
  fdt_root :: fdt_node
  fdt_subnodes :: "fdt_node list"
  fdt_free :: nat

definition FDT_MAGIC :: UINT32 where
  "FDT_MAGIC = 0xd00dfeed"

definition FDT_ERR_NOTFOUND :: int where "FDT_ERR_NOTFOUND = 1"
definition FDT_ERR_EXISTS :: int where "FDT_ERR_EXISTS = 2"
definition FDT_ERR_NOSPACE :: int where "FDT_ERR_NOSPACE = 3"
definition FDT_ERR_BADOFFSET :: int where "FDT_ERR_BADOFFSET = 4"
definition FDT_ERR_BADMAGIC :: int where "FDT_ERR_BADMAGIC = 9"

definition fdt_check_header :: "fdt \<Rightarrow> int" where
  "fdt_check_header f = (if fdt_magic f = FDT_MAGIC then 0 else - FDT_ERR_BADMAGIC)"

fun find_subnode :: "string \<Rightarrow> fdt_node list \<Rightarrow> nat option" where
  "find_subnode name [] = None"
| "find_subnode name (n # ns) =
     (if node_name n = name then Some 0 else map_option Suc (find_subnode name ns))"

definition fdt_subnode_offset :: "fdt \<Rightarrow> int \<Rightarrow> string \<Rightarrow> int" where
  "fdt_subnode_offset f parentoffset name =
     (if parentoffset \<noteq> 0 then - FDT_ERR_BADOFFSET
      else case find_subnode name (fdt_subnodes f) of
             None \<Rightarrow> - FDT_ERR_NOTFOUND
           | Some i \<Rightarrow> int i + 1)"

text \<open>\<open>FDT_TAGALIGN\<close>: the next multiple of 4.\<close>

definition FDT_TAGALIGN :: "nat \<Rightarrow> nat" where
  "FDT_TAGALIGN n = ((n + 3) div 4) * 4"

text \<open>
  \<open>fdt_add_subnode\<close> puts the new, empty node in front of the subnodes of its parent; it
  needs room for the begin tag, the aligned name and the end tag.
\<close>

definition fdt_add_subnode :: "fdt \<Rightarrow> int \<Rightarrow> string \<Rightarrow> int \<times> fdt" where
  "fdt_add_subnode f parentoffset name =
     (if parentoffset \<noteq> 0 then (- FDT_ERR_BADOFFSET, f)
      else if find_subnode name (fdt_subnodes f) \<noteq> None then (- FDT_ERR_EXISTS, f)
      else if fdt_free f < 8 + FDT_TAGALIGN (length name + 1) then (- FDT_ERR_NOSPACE, f)
      else (1, f\<lparr>fdt_subnodes := \<lparr>node_name = name, node_props = []\<rparr> # fdt_subnodes f,
                  fdt_free := fdt_free f - (8 + FDT_TAGALIGN (length name + 1))\<rparr>))"

text \<open>
  \<open>fdt_setprop\<close> on one node: a property of that name gets the new value in its place
  (and the room its value takes changes); a new property is put in front, and needs room
  for its 12-byte header, its aligned value and its name in the strings block. The result
  is the room needed beyond what is freed, and the new properties.
\<close>

fun set_property :: "string \<Rightarrow> UINT8 list \<Rightarrow> fdt_property list \<Rightarrow> fdt_property list" where
  "set_property name val [] = []"
| "set_property name val ((k, v) # ps) =
     (if k = name then (k, val) # ps else (k, v) # set_property name val ps)"

definition setprop_node :: "string \<Rightarrow> UINT8 list \<Rightarrow> fdt_node \<Rightarrow> nat \<times> nat \<times> fdt_node" where
  "setprop_node name val n =
     (case map_of (node_props n) name of
        Some old \<Rightarrow>
          (FDT_TAGALIGN (length val), FDT_TAGALIGN (length old),
           n\<lparr>node_props := set_property name val (node_props n)\<rparr>)
      | None \<Rightarrow>
          (12 + FDT_TAGALIGN (length val) + length name + 1, 0,
           n\<lparr>node_props := (name, val) # node_props n\<rparr>))"

definition fdt_setprop :: "fdt \<Rightarrow> int \<Rightarrow> string \<Rightarrow> UINT8 list \<Rightarrow> int \<times> fdt" where
  "fdt_setprop f nodeoffset name val =
     (if nodeoffset < 0 \<or> int (length (fdt_subnodes f)) < nodeoffset
      then (- FDT_ERR_BADOFFSET, f)
      else
        let i = nat nodeoffset - 1;
            (need, freed, n') =
              setprop_node name val
                (if nodeoffset = 0 then fdt_root f else fdt_subnodes f ! i)
        in
        if fdt_free f + freed < need then (- FDT_ERR_NOSPACE, f)
        else if nodeoffset = 0
          then (0, f\<lparr>fdt_root := n', fdt_free := fdt_free f + freed - need\<rparr>)
          else (0, f\<lparr>fdt_subnodes := (fdt_subnodes f)[i := n'],
                      fdt_free := fdt_free f + freed - need\<rparr>))"

text \<open>\<open>fdt_getprop\<close>: the value of a property of a node, if the node has it.\<close>

definition fdt_getprop :: "fdt \<Rightarrow> int \<Rightarrow> string \<Rightarrow> UINT8 list option" where
  "fdt_getprop f nodeoffset name =
     (if nodeoffset < 0 \<or> int (length (fdt_subnodes f)) < nodeoffset then None
      else map_of
             (node_props (if nodeoffset = 0 then fdt_root f
                          else fdt_subnodes f ! (nat nodeoffset - 1))) name)"

text \<open>
  A \<open>uint64_t\<close> in memory on the little-endian arm64 machine: its eight bytes, lowest
  first. \<open>cpu_to_fdt64\<close> builds its result from the bytes of its argument in memory,
  the first byte becoming the most significant (\<open>CPU_TO_FDT64\<close> of \<open>libfdt_env.h\<close>).
\<close>

definition bytes_of_uint64 :: "64 word \<Rightarrow> UINT8 list" where
  "bytes_of_uint64 x = map (\<lambda>n. ucast (drop_bit (8 * n) x)) [0..<8]"

definition EXTRACT_BYTE :: "64 word \<Rightarrow> nat \<Rightarrow> 64 word" where
  "EXTRACT_BYTE x n = ucast (bytes_of_uint64 x ! n)"

definition cpu_to_fdt64 :: "64 word \<Rightarrow> 64 word" where
  "cpu_to_fdt64 x =
     push_bit 56 (EXTRACT_BYTE x 0) OR push_bit 48 (EXTRACT_BYTE x 1) OR
     push_bit 40 (EXTRACT_BYTE x 2) OR push_bit 32 (EXTRACT_BYTE x 3) OR
     push_bit 24 (EXTRACT_BYTE x 4) OR push_bit 16 (EXTRACT_BYTE x 5) OR
     push_bit 8 (EXTRACT_BYTE x 6) OR EXTRACT_BYTE x 7"

text \<open>The eight bytes of a 64-bit value in big-endian order, most significant first.\<close>

definition big_endian64 :: "64 word \<Rightarrow> UINT8 list" where
  "big_endian64 x = map (\<lambda>n. ucast (drop_bit (8 * (7 - n)) x)) [0..<8]"

subsection \<open>The arm64 structures and state\<close>

text \<open>
  Modelled from the spec: \<open>struct arm64_kernel_header\<close> and
  \<open>struct arm64_linux_pe_header\<close> are declared in \<open>linux.h\<close>, which is not among the
  sources. The records have the members \<open>linux.c\<close> names (32-bit offsets, as in the arm64
  image header and the PE optional header) and keep the other members as their bytes.
\<close>

record arm64_kernel_header =
  hdr_offset :: UINT32
  kernel_header_other :: "UINT8 list"

record optional_header =
  entry_addr :: UINT32
  optional_header_other :: "UINT8 list"

record arm64_linux_pe_header =
  opt :: optional_header
  pe_header_other :: "UINT8 list"

text \<open>A call of \<open>Print\<close>: the format string and the values of its arguments.\<close>

type_synonym print_call = "string \<times> nat list"

text \<open>
  The arm64 state: the typed views of the memory for the two headers and for device tree
  blobs (views of different types are taken not to overlap), and, in order, the calls of
  \<open>fdt_setprop\<close> (blob, node offset, property name, value), the calls of \<open>Print\<close> and
  the handover calls made so far.
\<close>

record arm64_machine =
  heap_arm64_kernel_header :: "addr \<Rightarrow> arm64_kernel_header"
  heap_arm64_linux_pe_header :: "addr \<Rightarrow> arm64_linux_pe_header"
  heap_fdt :: "addr \<Rightarrow> fdt"
  setprop_calls :: "(addr \<times> int \<times> string \<times> UINT8 list) list"
  console :: "print_call list"
  arm64_handover_calls :: "handover_call list"

definition Print :: "string \<Rightarrow> nat list \<Rightarrow> arm64_machine \<Rightarrow> arm64_machine" where
  "Print fmt args m = m\<lparr>console := console m @ [(fmt, args)]\<rparr>"

definition call_fdt_add_subnode ::
  "addr \<Rightarrow> int \<Rightarrow> string \<Rightarrow> arm64_machine \<Rightarrow> int \<times> arm64_machine" where
  "call_fdt_add_subnode fdt parentoffset name m =
     (let (r, f') = fdt_add_subnode (heap_fdt m fdt) parentoffset name
      in (r, m\<lparr>heap_fdt := (heap_fdt m)(fdt := f')\<rparr>))"

definition call_fdt_setprop ::
  "addr \<Rightarrow> int \<Rightarrow> string \<Rightarrow> UINT8 list \<Rightarrow> arm64_machine \<Rightarrow> int \<times> arm64_machine" where
  "call_fdt_setprop fdt nodeoffset name val m =
     (let (r, f') = fdt_setprop (heap_fdt m fdt) nodeoffset name val
      in (r, m\<lparr>heap_fdt := (heap_fdt m)(fdt := f'),
               setprop_calls := setprop_calls m @ [(fdt, nodeoffset, name, val)]\<rparr>))"

subsection \<open>\<open>open_fdt\<close>, \<open>update_fdt\<close> and \<open>linux_aarch64_exec\<close>\<close>

definition open_fdt :: "efi_env \<Rightarrow> arm64_machine \<Rightarrow> addr \<times> arm64_machine" where
  "open_fdt env m =
     (let (status, fdt) = dtb_table env in
      if EFI_ERROR status then (0, Print ''DTB table not found\<newline>'' [] m)
      else if fdt_check_header (heap_fdt m fdt) \<noteq> 0
        then (0, Print ''Invalid header detected on UEFI supplied FDT\<newline>'' [] m)
      else
        let fdt_size = unat (fdt_totalsize (heap_fdt m fdt))
        in (fdt, Print ''Size of fdt is %lu\<newline>'' [fdt_size] m))"

definition update_fdt :: "efi_env \<Rightarrow> addr \<Rightarrow> 64 word \<Rightarrow> arm64_machine \<Rightarrow> arm64_machine" where
  "update_fdt env initrd_addr initrd_size m =
     (let (fdt, m1) = open_fdt env m in
      if fdt = 0 then m1
      else
        let node0 = fdt_subnode_offset (heap_fdt m1 fdt) 0 ''chosen'';
            (node, m2) =
              (if node0 < 0 then call_fdt_add_subnode fdt 0 ''chosen'' m1 else (node0, m1))
        in
        if node0 < 0 \<and> node < 0 then Print ''Error creating chosen\<newline>'' [] m2
        else
          let initrd_start = cpu_to_fdt64 initrd_addr;
              initrd_end = cpu_to_fdt64 (initrd_addr + initrd_size);
              (status, m3) =
                call_fdt_setprop fdt node ''linux,initrd-start''
                  (bytes_of_uint64 initrd_start) m2
          in
          if status \<noteq> 0 then Print ''Cannot create initrd-start property\<newline>'' [] m3
          else
            let (status, m4) =
                  call_fdt_setprop fdt node ''linux,initrd-end''
                    (bytes_of_uint64 initrd_end) m3
            in
            if status \<noteq> 0 then Print ''Cannot create initrd-end property\<newline>'' [] m4
            else m4)"

text \<open>
  \<open>linux_aarch64_exec\<close>. The handover call has the type \<open>handover_f\<close>, with three
  arguments: the third one is \<open>image\<close> again.
\<close>

definition linux_aarch64_exec ::
  "efi_env \<Rightarrow> addr \<Rightarrow> addr \<Rightarrow> 64 word \<Rightarrow> addr \<Rightarrow> addr \<Rightarrow> 64 word \<Rightarrow> arm64_machine
     \<Rightarrow> outcome \<times> arm64_machine" where
  "linux_aarch64_exec env image_handle cmdline cmdline_len linux_addr initrd_addr initrd_size m =
     (let m1 = (if initrd_size \<noteq> 0 then update_fdt env initrd_addr initrd_size m else m);
          hdr_p = linux_addr;
          pe = linux_addr + ucast (hdr_offset (heap_arm64_kernel_header m1 hdr_p));
          handover = linux_addr + ucast (entry_addr (opt (heap_arm64_linux_pe_header m1 pe)));
          m2 = Print ''Calling now EFI kernel stub\<newline>'' [] m1;
          c = \<lparr>entry = handover, arg_image = image_handle, arg_table = ST env,
               arg_params = image_handle\<rparr>
      in (if kernel_returns env c then Returned EFI_LOAD_ERROR else Transferred,
          m2\<lparr>arm64_handover_calls := arm64_handover_calls m2 @ [c]\<rparr>))"

subsection \<open>What the firmware owes to a request\<close>


subsection \<open>Concrete inputs\<close>

text \<open>
  A kernel image that passes the four checks of \<open>linux_exec\<close>: the header of a 2.11
  boot protocol image, with \<open>code32_start\<close> at its customary build-time value.
\<close>

definition example_hdr :: setup_header where
  "example_hdr =
     \<lparr>setup_sects = 0, boot_flag = 0xAA55, header = SETUP_MAGIC, version = 0x20b,
      type_of_loader = 0, code32_start = 0x100000, ramdisk_image = 0, ramdisk_size = 0,
      cmd_line_ptr = 0, relocatable_kernel = 1, handover_offset = 0x190,
      hdr_other = [0x12, 0x34]\<rparr>"

text \<open>
  A firmware that serves a request below 4 GiB at \<open>0x7F000000\<close> and a request below
  640 KiB at \<open>0x9F000\<close>, and a kernel that takes control.
\<close>

definition example_env :: efi_env where
  "example_env =
     \<lparr>AllocatePages =
        (\<lambda>served req. if req_addr req = 0xA0000 then (EFI_SUCCESS, 0x9F000)
                       else (EFI_SUCCESS, 0x7F000000)),
      ST = 0x7E000000,
      kernel_returns = (\<lambda>c. False),
      dtb_table = (EFI_SUCCESS, 0x40000000)\<rparr>"

text \<open>
  A machine with a kernel image whose header is \<open>h\<close> at \<open>linux_addr\<close>, the command line
  \<open>ro\<close> at \<open>0x2000000\<close>, and memory that is not zero elsewhere.
\<close>

definition example_machine :: "addr \<Rightarrow> setup_header \<Rightarrow> machine" where
  "example_machine linux_addr h =
     \<lparr>heap_boot_params =
        (\<lambda>p. if p = linux_addr then \<lparr>hdr = h, params_other = [1, 2, 3]\<rparr>
             else \<lparr>hdr = h\<lparr>boot_flag := 0, cmd_line_ptr := 7\<rparr>, params_other = [9, 9, 9]\<rparr>),
      heap_CHAR8 = (\<lambda>p. if p = 0x2000000 then 0x72 else if p = 0x2000001 then 0x6F else 0x55),
      alloc_calls = [],
      interrupts_enabled = True,
      handover_calls = []\<rparr>"


text \<open>
  A device tree blob with a valid header, a \<open>memory\<close> node and no \<open>chosen\<close> node, with
  \<open>n\<close> bytes free.
\<close>

definition example_fdt :: "nat \<Rightarrow> fdt" where
  "example_fdt n =
     \<lparr>fdt_magic = FDT_MAGIC, fdt_totalsize = 0x2000,
      fdt_root = \<lparr>node_name = [], node_props = [(''model'', [0x71, 0])]\<rparr>,
      fdt_subnodes = [\<lparr>node_name = ''memory'', node_props = [(''reg'', [0, 0, 0, 0])]\<rparr>],
      fdt_free = n\<rparr>"

text \<open>
  An arm64 machine: a kernel at \<open>0x80000\<close> whose header gives the offset \<open>0x40\<close> to its
  PE header, the PE header there with the entry offset \<open>0x1000\<close>, and the blob \<open>f\<close>
  wherever a blob is read.
\<close>

definition example_arm64_machine :: "fdt \<Rightarrow> arm64_machine" where
  "example_arm64_machine f =
     \<lparr>heap_arm64_kernel_header =
        (\<lambda>p. if p = 0x80000 then \<lparr>hdr_offset = 0x40, kernel_header_other = [0x4D, 0x5A]\<rparr>
             else \<lparr>hdr_offset = 0x7777, kernel_header_other = []\<rparr>),
      heap_arm64_linux_pe_header =
        (\<lambda>p. if p = 0x80040
             then \<lparr>opt = \<lparr>entry_addr = 0x1000, optional_header_other = []\<rparr>,
                   pe_header_other = [0x50, 0x45]\<rparr>
             else \<lparr>opt = \<lparr>entry_addr = 0x9999, optional_header_other = []\<rparr>,
                   pe_header_other = []\<rparr>),
      heap_fdt = (\<lambda>p. f),
      setprop_calls = [],
      console = [],
      arm64_handover_calls = []\<rparr>"

section \<open>Arithmetic of the machine words\<close>














section \<open>The paths through \<open>linux_exec\<close>\<close>

lemmas x86_defs = linux_exec_def Let_def call_AllocatePages_def ZeroMem_boot_params_def
  update_hdr_def linux_efi_handover_def CopyMem_CHAR8_def

lemma linux_exec_first_allocation_fails:
  assumes valid: "boot_flag (hdr (heap_boot_params m linux_addr)) = 0xAA55 \<and>
                  header (hdr (heap_boot_params m linux_addr)) = SETUP_MAGIC \<and>
                  0x20b \<le> version (hdr (heap_boot_params m linux_addr)) \<and>
                  relocatable_kernel (hdr (heap_boot_params m linux_addr)) \<noteq> 0"
    and alloc: "AllocatePages env (alloc_calls m) boot_params_request = (err, bp)"
    and failed: "EFI_ERROR err"
  shows "linux_exec a env image_handle cmdline cmdline_len linux_addr initrd_addr initrd_size m
           = (Returned err, m\<lparr>alloc_calls := alloc_calls m @ [boot_params_request]\<rparr>)"
proof -
  have v: "\<not> version (hdr (heap_boot_params m linux_addr)) < 0x20b"
    using valid by (simp add: linorder_not_less)
  show ?thesis
    using valid v alloc failed by (simp add: x86_defs)
qed



lemmas example_defs = example_hdr_def example_env_def example_machine_def SETUP_MAGIC_def
  boot_params_request_def cmdline_request_def EFI_SIZE_TO_PAGES_def to_UINTN_def

section \<open>The image validator\<close>

text \<open>
  Claim C2. A kernel image that fails one of the four checks of \<open>linux_exec\<close> (the
  boot-sector signature \<open>0xAA55\<close>, the setup-header magic, a protocol version of at least
  \<open>0x20b\<close>, the relocatable flag) makes \<open>linux_exec\<close> return \<open>EFI_LOAD_ERROR\<close> at once:
  the machine state is the one it was called in, so nothing was written and the list of
  allocator calls has not grown.
\<close>

theorem linux_exec_rejects_invalid_image:
  assumes "boot_flag (hdr (heap_boot_params m linux_addr)) \<noteq> 0xAA55 \<or>
           header (hdr (heap_boot_params m linux_addr)) \<noteq> SETUP_MAGIC \<or>
           version (hdr (heap_boot_params m linux_addr)) < 0x20b \<or>
           relocatable_kernel (hdr (heap_boot_params m linux_addr)) = 0"
  shows "linux_exec a env image_handle cmdline cmdline_len linux_addr initrd_addr initrd_size m
           = (Returned EFI_LOAD_ERROR, m) \<and>
         alloc_calls (snd (linux_exec a env image_handle cmdline cmdline_len linux_addr
                             initrd_addr initrd_size m)) = alloc_calls m"
  using assms by (auto simp add: linux_exec_def Let_def)

text \<open>
  The theorem at four images, each failing one check only, on a machine that has served no
  allocation yet: the count of allocator calls stays zero.
\<close>

theorem linux_exec_rejects_invalid_image_witness:
  "linux_exec X86_64 example_env 0x5000 0x2000000 2 0x1000000 0x3000000 0x4000
     (example_machine 0x1000000 (example_hdr\<lparr>boot_flag := 0xAA54\<rparr>))
     = (Returned EFI_LOAD_ERROR, example_machine 0x1000000 (example_hdr\<lparr>boot_flag := 0xAA54\<rparr>)) \<and>
   linux_exec X86_64 example_env 0x5000 0x2000000 2 0x1000000 0x3000000 0x4000
     (example_machine 0x1000000 (example_hdr\<lparr>header := 0x53726449\<rparr>))
     = (Returned EFI_LOAD_ERROR, example_machine 0x1000000 (example_hdr\<lparr>header := 0x53726449\<rparr>)) \<and>
   linux_exec I386 example_env 0x5000 0x2000000 2 0x1000000 0x3000000 0x4000
     (example_machine 0x1000000 (example_hdr\<lparr>version := 0x20a\<rparr>))
     = (Returned EFI_LOAD_ERROR, example_machine 0x1000000 (example_hdr\<lparr>version := 0x20a\<rparr>)) \<and>
   linux_exec I386 example_env 0x5000 0 0 0x1000000 0x3000000 0x4000
     (example_machine 0x1000000 (example_hdr\<lparr>relocatable_kernel := 0\<rparr>))
     = (Returned EFI_LOAD_ERROR, example_machine 0x1000000 (example_hdr\<lparr>relocatable_kernel := 0\<rparr>)) \<and>
   alloc_calls (snd (linux_exec I386 example_env 0x5000 0 0 0x1000000 0x3000000 0x4000
     (example_machine 0x1000000 (example_hdr\<lparr>relocatable_kernel := 0\<rparr>)))) = []"
  using
    linux_exec_rejects_invalid_image [where m = "example_machine 0x1000000 (example_hdr\<lparr>boot_flag := 0xAA54\<rparr>)"
      and linux_addr = "0x1000000" and a = X86_64 and env = example_env and image_handle = "0x5000"
      and cmdline = "0x2000000" and cmdline_len = "2" and initrd_addr = "0x3000000" and initrd_size = "0x4000"]
    linux_exec_rejects_invalid_image [where m = "example_machine 0x1000000 (example_hdr\<lparr>header := 0x53726449\<rparr>)"
      and linux_addr = "0x1000000" and a = X86_64 and env = example_env and image_handle = "0x5000"
      and cmdline = "0x2000000" and cmdline_len = "2" and initrd_addr = "0x3000000" and initrd_size = "0x4000"]
    linux_exec_rejects_invalid_image [where m = "example_machine 0x1000000 (example_hdr\<lparr>version := 0x20a\<rparr>)"
      and linux_addr = "0x1000000" and a = I386 and env = example_env and image_handle = "0x5000"
      and cmdline = "0x2000000" and cmdline_len = "2" and initrd_addr = "0x3000000" and initrd_size = "0x4000"]
    linux_exec_rejects_invalid_image [where m = "example_machine 0x1000000 (example_hdr\<lparr>relocatable_kernel := 0\<rparr>)"
      and linux_addr = "0x1000000" and a = I386 and env = example_env and image_handle = "0x5000"
      and cmdline = "0" and cmdline_len = "0" and initrd_addr = "0x3000000" and initrd_size = "0x4000"]
  by (simp add: example_defs)

section \<open>The protected-mode entry field\<close>




section \<open>Failure of the command-line allocation\<close>



section \<open>The x86 handover\<close>



section \<open>The parameter block\<close>





section \<open>Staging the command line\<close>




section \<open>The arm64 path\<close>

subsection \<open>What each step leaves alone\<close>

lemma Print_frame:
  "heap_arm64_kernel_header (Print fmt args m) = heap_arm64_kernel_header m"
  "heap_arm64_linux_pe_header (Print fmt args m) = heap_arm64_linux_pe_header m"
  "arm64_handover_calls (Print fmt args m) = arm64_handover_calls m"
  "heap_fdt (Print fmt args m) = heap_fdt m"
  "setprop_calls (Print fmt args m) = setprop_calls m"
  "console (Print fmt args m) = console m @ [(fmt, args)]"
  by (simp_all add: Print_def)

lemma open_fdt_frame:
  "heap_arm64_kernel_header (snd (open_fdt env m)) = heap_arm64_kernel_header m"
  "heap_arm64_linux_pe_header (snd (open_fdt env m)) = heap_arm64_linux_pe_header m"
  "arm64_handover_calls (snd (open_fdt env m)) = arm64_handover_calls m"
  "heap_fdt (snd (open_fdt env m)) = heap_fdt m"
  "setprop_calls (snd (open_fdt env m)) = setprop_calls m"
  by (simp_all add: open_fdt_def Let_def split_beta Print_frame)

lemma call_fdt_add_subnode_frame:
  "heap_arm64_kernel_header (snd (call_fdt_add_subnode fdt parent name m)) = heap_arm64_kernel_header m"
  "heap_arm64_linux_pe_header (snd (call_fdt_add_subnode fdt parent name m)) = heap_arm64_linux_pe_header m"
  "arm64_handover_calls (snd (call_fdt_add_subnode fdt parent name m)) = arm64_handover_calls m"
  "setprop_calls (snd (call_fdt_add_subnode fdt parent name m)) = setprop_calls m"
  "console (snd (call_fdt_add_subnode fdt parent name m)) = console m"
  by (simp_all add: call_fdt_add_subnode_def split_beta)

lemma call_fdt_setprop_frame:
  "heap_arm64_kernel_header (snd (call_fdt_setprop fdt node name val m)) = heap_arm64_kernel_header m"
  "heap_arm64_linux_pe_header (snd (call_fdt_setprop fdt node name val m)) = heap_arm64_linux_pe_header m"
  "arm64_handover_calls (snd (call_fdt_setprop fdt node name val m)) = arm64_handover_calls m"
  "console (snd (call_fdt_setprop fdt node name val m)) = console m"
  by (simp_all add: call_fdt_setprop_def split_beta)

lemma update_fdt_frame:
  "heap_arm64_kernel_header (update_fdt env initrd_addr initrd_size m) = heap_arm64_kernel_header m"
  "heap_arm64_linux_pe_header (update_fdt env initrd_addr initrd_size m) = heap_arm64_linux_pe_header m"
  "arm64_handover_calls (update_fdt env initrd_addr initrd_size m) = arm64_handover_calls m"
  by (simp_all add: update_fdt_def Let_def split_beta Print_frame open_fdt_frame
        call_fdt_add_subnode_frame call_fdt_setprop_frame)

text \<open>
  The handover call of \<open>linux_aarch64_exec\<close> and its result, whatever \<open>update_fdt\<close>
  did before.
\<close>

lemma linux_aarch64_exec_handover:
  fixes m :: arm64_machine and linux_addr image_handle :: addr and env :: efi_env
  defines "pe \<equiv> linux_addr + ucast (hdr_offset (heap_arm64_kernel_header m linux_addr))"
  defines "c \<equiv> \<lparr>entry = linux_addr + ucast (entry_addr (opt (heap_arm64_linux_pe_header m pe))),
                  arg_image = image_handle, arg_table = ST env, arg_params = image_handle\<rparr>"
  shows "fst (linux_aarch64_exec env image_handle cmdline cmdline_len linux_addr
                initrd_addr initrd_size m)
           = (if kernel_returns env c then Returned EFI_LOAD_ERROR else Transferred)"
    and "arm64_handover_calls (snd (linux_aarch64_exec env image_handle cmdline cmdline_len
                                      linux_addr initrd_addr initrd_size m))
           = arm64_handover_calls m @ [c]"
  by (simp_all add: linux_aarch64_exec_def Let_def Print_def update_fdt_frame pe_def c_def)

subsection \<open>The arm64 entry address\<close>

text \<open>
  Claim C1, as amended. \<open>linux_aarch64_exec\<close> makes one handover call. Its entry is the
  kernel load address plus the entry offset declared by the embedded executable header;
  the header-declared offset only locates that executable header (at load address plus
  offset) and is not added to the entry. The call passes the image handle and the system
  table, and the image handle once more in the place of the parameter block: no
  parameter block is passed.
\<close>

theorem aarch64_handover_call:
  "arm64_handover_calls (snd (linux_aarch64_exec env image_handle cmdline cmdline_len
                                linux_addr initrd_addr initrd_size m))
     = arm64_handover_calls m @
       [\<lparr>entry = linux_addr +
                  ucast (entry_addr (opt (heap_arm64_linux_pe_header m
                           (linux_addr + ucast (hdr_offset (heap_arm64_kernel_header m linux_addr)))))),
         arg_image = image_handle, arg_table = ST env, arg_params = image_handle\<rparr>]"
  by (rule linux_aarch64_exec_handover(2))

text \<open>
  The claim as first stated adds the offset of the executable header to the entry. For a
  kernel at \<open>0x80000\<close> with the executable header at offset \<open>0x40\<close> and the entry
  offset \<open>0x1000\<close>, the entry is \<open>0x81000\<close>, not \<open>0x81040\<close>.
\<close>

theorem aarch64_entry_counterexample:
  "hdr_offset (heap_arm64_kernel_header (example_arm64_machine (example_fdt 256)) 0x80000) = 0x40 \<and>
   entry_addr (opt (heap_arm64_linux_pe_header (example_arm64_machine (example_fdt 256))
                      (0x80000 + 0x40))) = 0x1000 \<and>
   map entry (arm64_handover_calls (snd (linux_aarch64_exec example_env 0x5000 0 0 0x80000
                 0x48000000 0x2000 (example_arm64_machine (example_fdt 256))))) = [0x81000] \<and>
   map entry (arm64_handover_calls (snd (linux_aarch64_exec example_env 0x5000 0 0 0x80000
                 0x48000000 0x2000 (example_arm64_machine (example_fdt 256)))))
     \<noteq> [0x80000 + 0x40 + 0x1000]"
  by (simp add: linux_aarch64_exec_handover(2) example_arm64_machine_def)

text \<open>The theorem at the same kernel.\<close>

theorem aarch64_handover_call_witness:
  "arm64_handover_calls (snd (linux_aarch64_exec example_env 0x5000 0 0 0x80000
                                0x48000000 0x2000 (example_arm64_machine (example_fdt 256))))
     = [\<lparr>entry = 0x80000 + 0x1000, arg_image = 0x5000, arg_table = 0x7E000000,
         arg_params = 0x5000\<rparr>]"
  using aarch64_handover_call [where m = "example_arm64_machine (example_fdt 256)"
      and env = example_env and image_handle = "0x5000" and cmdline = "0" and cmdline_len = "0"
      and linux_addr = "0x80000" and initrd_addr = "0x48000000" and initrd_size = "0x2000"]
  by (simp add: example_arm64_machine_def example_env_def)

subsection \<open>No validation on arm64\<close>

text \<open>
  Claim C10. Whatever the memory at the load address holds, \<open>linux_aarch64_exec\<close> makes
  its handover call: the calls recorded are the earlier ones and one more. Its only
  result is \<open>EFI_LOAD_ERROR\<close>, and it has that result exactly when this call came back;
  otherwise control stays with the kernel.
\<close>

theorem aarch64_exec_never_validates:
  "arm64_handover_calls (snd (linux_aarch64_exec env image_handle cmdline cmdline_len
                                linux_addr initrd_addr initrd_size m)) \<noteq> [] \<and>
   butlast (arm64_handover_calls (snd (linux_aarch64_exec env image_handle cmdline cmdline_len
                                         linux_addr initrd_addr initrd_size m)))
     = arm64_handover_calls m \<and>
   fst (linux_aarch64_exec env image_handle cmdline cmdline_len linux_addr
          initrd_addr initrd_size m)
     = (if kernel_returns env
             (last (arm64_handover_calls (snd (linux_aarch64_exec env image_handle cmdline
                                                 cmdline_len linux_addr initrd_addr initrd_size m))))
        then Returned EFI_LOAD_ERROR else Transferred)"
  by (simp add: linux_aarch64_exec_handover)

text \<open>
  The theorem at a load address where the example machine holds no kernel, with a kernel
  that comes back and with one that does not.
\<close>

theorem aarch64_exec_never_validates_witness:
  "length (arm64_handover_calls (snd (linux_aarch64_exec
       (example_env\<lparr>kernel_returns := (\<lambda>c. True)\<rparr>) 0x5000 0 0 0x123456 0 0
       (example_arm64_machine (example_fdt 0))))) = 1 \<and>
   fst (linux_aarch64_exec (example_env\<lparr>kernel_returns := (\<lambda>c. True)\<rparr>) 0x5000 0 0 0x123456 0 0
       (example_arm64_machine (example_fdt 0))) = Returned EFI_LOAD_ERROR \<and>
   fst (linux_aarch64_exec example_env 0x5000 0 0 0x123456 0 0
       (example_arm64_machine (example_fdt 0))) = Transferred"
  using
    aarch64_exec_never_validates [where m = "example_arm64_machine (example_fdt 0)"
      and env = "example_env\<lparr>kernel_returns := (\<lambda>c. True)\<rparr>" and image_handle = "0x5000"
      and cmdline = "0" and cmdline_len = "0"
      and linux_addr = "0x123456" and initrd_addr = "0" and initrd_size = "0"]
    aarch64_exec_never_validates [where m = "example_arm64_machine (example_fdt 0)"
      and env = example_env and image_handle = "0x5000"
      and cmdline = "0" and cmdline_len = "0"
      and linux_addr = "0x123456" and initrd_addr = "0" and initrd_size = "0"]
  by (simp add: example_arm64_machine_def example_env_def linux_aarch64_exec_handover(2))

end
